theory Spec2Isabelle
  imports Complex_Main
begin

section \<open>Values, errors and the observable world\<close>

text \<open>
  The repository is \<^verbatim>\<open>processors.py\<close>: the class \<^verbatim>\<open>SeparateProcess\<close> (a handle on one
  operating-system process), the class \<^verbatim>\<open>ProcessingUnit\<close> (setup, task and closure phases
  around a task object) and its subclass \<^verbatim>\<open>ProcessingCluster\<close>.

  Exceptions are values: every operation returns \<open>Inl e\<close> where the Python raises \<open>e\<close>.
  An operation that can block for ever returns an \<open>option\<close>, with \<open>None\<close> for a call that
  never returns.
\<close>

datatype exn = AssertionError | ValueError | AttributeError | TypeError | OSError | CallError

datatype pyval =
    VNone
  | VBool bool
  | VNum real
  | VStr string
  | VRef string
  | VDict "(string \<times> pyval) list"

type_synonym kwargs = "(string \<times> pyval) list"

text \<open>
  An entry reference of a process: the module-level dispatcher \<^verbatim>\<open>run_method\<close> or some
  other function, known by its name.
\<close>

datatype target = Run_method | Func string

datatype warning = TimeoutWarning | RunThrough

text \<open>
  What the program does to its surroundings, in the order it does it. A call of one of the
  unit's callables (setup, closure, a method of the task object) is recorded with its
  keyword arguments and with the value the unit's field \<^verbatim>\<open>_is_processing\<close> has at that
  moment.
\<close>

datatype event =
    SetJoined bool
  | Call string kwargs bool
  | Warn warning
  | ProcNew
  | ProcStart
  | ProcJoin "real option"
  | ProcTerminate
  | ProcClose
  | ClockRead
  | Sleep real

text \<open>
  The outcome of asking the operating system for a new process: it fails, or the process
  runs for the given time (\<open>None\<close>: until it is killed).
\<close>

datatype spawn = SpawnFails | Runs "real option"

record world =
  now :: real
  next_id :: nat
  cur_daemon :: bool
  attempts :: nat
  spawn_plan :: "nat \<Rightarrow> spawn"
  kill_delay :: real
  tick :: real
  failing :: "string list"
  trace :: "event list"

definition emit :: "event \<Rightarrow> world \<Rightarrow> world" where
  "emit e w = w\<lparr>trace := trace w @ [e]\<rparr>"

text \<open>
  \<^verbatim>\<open>time.perf_counter()\<close> returns the time and takes \<open>tick\<close> to do so;
  \<^verbatim>\<open>asyncio.sleep(d)\<close> lets \<open>d\<close> pass.
\<close>

definition perf_counter :: "world \<Rightarrow> real \<times> world" where
  "perf_counter w = (now w, emit ClockRead (w\<lparr>now := now w + tick w\<rparr>))"

definition sleep :: "real \<Rightarrow> world \<Rightarrow> world" where
  "sleep d w = emit (Sleep d) (w\<lparr>now := now w + max d 0\<rparr>)"

section \<open>The process object of the standard library\<close>

text \<open>
  \<^verbatim>\<open>multiprocessing.Process\<close> is not code of the repository; it is modelled from its
  documented behaviour. A process object is created unstarted, can be started once, and
  can be closed when it is not running; a closed object refuses \<^verbatim>\<open>is_alive\<close>,
  \<^verbatim>\<open>exitcode\<close>, \<^verbatim>\<open>join\<close>, \<^verbatim>\<open>terminate\<close> and \<^verbatim>\<open>start\<close> with \<^verbatim>\<open>ValueError\<close>;
  joining or starting in the wrong state fails an assertion. A started process carries the
  time at which it ends (\<open>None\<close>: never) and the exit code it then has. The launch fields
  \<^verbatim>\<open>_target\<close>, \<^verbatim>\<open>_name\<close>, \<^verbatim>\<open>_args\<close>, \<^verbatim>\<open>_kwargs\<close> and \<^verbatim>\<open>daemon\<close> are taken to be
  readable on the object for as long as it exists.
\<close>

datatype pstate = Initial | Started "real option" int | Closed

record proc =
  p_target :: "target option"
  p_name :: string
  p_args :: "pyval list"
  p_kwargs :: kwargs
  p_daemon :: bool
  p_state :: pstate

fun digit_char :: "nat \<Rightarrow> char" where
  "digit_char n = (''0123456789'' ! (n mod 10))"

fun str_nat :: "nat \<Rightarrow> string" where
  "str_nat n = (if n < 10 then [digit_char n] else str_nat (n div 10) @ [digit_char n])"

declare str_nat.simps [simp del]

text \<open>\<^verbatim>\<open>Process()\<close>: no target, no arguments, a numbered name, the creator's daemon flag.\<close>

definition Process :: "world \<Rightarrow> proc \<times> world" where
  "Process w =
     (\<lparr>p_target = None, p_name = ''Process-'' @ str_nat (next_id w), p_args = [],
       p_kwargs = [], p_daemon = cur_daemon w, p_state = Initial\<rparr>,
      emit ProcNew (w\<lparr>next_id := Suc (next_id w)\<rparr>))"

definition proc_running :: "proc \<Rightarrow> real \<Rightarrow> bool" where
  "proc_running p t =
     (case p_state p of
        Started fin c \<Rightarrow> (case fin of None \<Rightarrow> True | Some f \<Rightarrow> t < f)
      | _ \<Rightarrow> False)"

definition proc_is_alive :: "proc \<Rightarrow> world \<Rightarrow> exn + bool" where
  "proc_is_alive p w =
     (if p_state p = Closed then Inl ValueError else Inr (proc_running p (now w)))"

definition proc_exitcode :: "proc \<Rightarrow> world \<Rightarrow> exn + int option" where
  "proc_exitcode p w =
     (case p_state p of
        Closed \<Rightarrow> Inl ValueError
      | Initial \<Rightarrow> Inr None
      | Started fin c \<Rightarrow> Inr (if proc_running p (now w) then None else Some c))"

definition proc_start :: "proc \<Rightarrow> world \<Rightarrow> (exn + proc) \<times> world" where
  "proc_start p w0 =
     (let w = emit ProcStart w0 in
      case p_state p of
        Closed \<Rightarrow> (Inl ValueError, w)
      | Started fin c \<Rightarrow> (Inl AssertionError, w)
      | Initial \<Rightarrow>
          (let w' = w\<lparr>attempts := Suc (attempts w)\<rparr> in
           case spawn_plan w (attempts w) of
             SpawnFails \<Rightarrow> (Inl OSError, w')
           | Runs d \<Rightarrow> (Inr (p\<lparr>p_state := Started (map_option (\<lambda>x. now w + x) d) 0\<rparr>), w')))"

definition proc_join :: "proc \<Rightarrow> real option \<Rightarrow> world \<Rightarrow> ((exn + unit) \<times> world) option" where
  "proc_join p timeout w0 =
     (let w = emit (ProcJoin timeout) w0 in
      case p_state p of
        Closed \<Rightarrow> Some (Inl ValueError, w)
      | Initial \<Rightarrow> Some (Inl AssertionError, w)
      | Started fin c \<Rightarrow>
          (case timeout of
             None \<Rightarrow>
               (case fin of
                  None \<Rightarrow> None
                | Some f \<Rightarrow> Some (Inr (), w\<lparr>now := max (now w) f\<rparr>))
           | Some t \<Rightarrow>
               (let d = now w + max t 0 in
                case fin of
                  None \<Rightarrow> Some (Inr (), w\<lparr>now := d\<rparr>)
                | Some f \<Rightarrow> Some (Inr (), w\<lparr>now := min d (max (now w) f)\<rparr>))))"



section \<open>SeparateProcess: the handle on one process\<close>

text \<open>
  The handle keeps the process object in \<^verbatim>\<open>_process\<close> (the entry \<^verbatim>\<open>__process\<close> of its
  instance dictionary) and the dispatcher in \<^verbatim>\<open>method_wrapper\<close>. Its class wraps the
  process object, so that \<^verbatim>\<open>self._target\<close>, \<^verbatim>\<open>self.daemon\<close>, \<^verbatim>\<open>self._args\<close> and
  \<^verbatim>\<open>self._kwargs\<close> read the fields of the process it holds.
\<close>

record handle =
  method_wrapper :: target
  sp_process :: "proc option"

text \<open>
  \<^verbatim>\<open>self._target\<close> inside \<^verbatim>\<open>create_process\<close>, which the source guards against a
  missing attribute.
\<close>

definition read_target :: "proc \<Rightarrow> exn + target option" where
  "read_target p = Inr (p_target p)"

text \<open>
  \<^verbatim>\<open>create_process(target, name, args, kwargs, daemon)\<close>. An omitted \<^verbatim>\<open>target\<close>,
  \<^verbatim>\<open>name\<close> or \<^verbatim>\<open>daemon\<close> is \<open>None\<close>; omitted \<^verbatim>\<open>args\<close> and \<^verbatim>\<open>kwargs\<close> are empty.
\<close>


definition create_process ::
  "target option \<Rightarrow> string option \<Rightarrow> pyval list \<Rightarrow> kwargs \<Rightarrow> bool option \<Rightarrow>
   handle \<Rightarrow> world \<Rightarrow> handle \<times> world" where
  "create_process target name args kwargs daemon h w =
     (let (target1, daemon1, args1, kwargs1) =
            (case sp_process h of
               Some prev \<Rightarrow>
                 (if target = None
                  then (case read_target prev of Inl e \<Rightarrow> target | Inr t \<Rightarrow> t)
                  else target,
                  if daemon = None then Some (p_daemon prev) else daemon,
                  if args = [] then p_args prev else args,
                  if kwargs = [] then p_kwargs prev else kwargs)
             | None \<Rightarrow> (target, daemon, args, kwargs));
          (p0, w') = Process w;
          p1 = (case name of Some n \<Rightarrow> p0\<lparr>p_name := n\<rparr> | None \<Rightarrow> p0);
          p2 = (case target1 of Some t \<Rightarrow> p1\<lparr>p_target := Some t\<rparr> | None \<Rightarrow> p1);
          p3 = (case daemon1 of Some d \<Rightarrow> p2\<lparr>p_daemon := d\<rparr> | None \<Rightarrow> p2);
          p4 = (if args1 \<noteq> [] then p3\<lparr>p_args := args1\<rparr> else p3);
          p5 = (if kwargs1 \<noteq> [] then p4\<lparr>p_kwargs := kwargs1\<rparr> else p4)
      in (h\<lparr>sp_process := Some p5\<rparr>, w'))"

text \<open>\<^verbatim>\<open>__init__\<close> followed by \<^verbatim>\<open>construct\<close> with \<^verbatim>\<open>delay = False\<close>.\<close>

definition SeparateProcess ::
  "target option \<Rightarrow> string option \<Rightarrow> pyval list \<Rightarrow> kwargs \<Rightarrow> bool option \<Rightarrow>
   world \<Rightarrow> handle \<times> world" where
  "SeparateProcess target name args kwargs daemon w =
     create_process target name args kwargs daemon
       \<lparr>method_wrapper = Run_method, sp_process = None\<rparr> w"

definition sp_is_alive :: "handle \<Rightarrow> world \<Rightarrow> exn + bool" where
  "sp_is_alive h w =
     (case sp_process h of None \<Rightarrow> Inr False | Some p \<Rightarrow> proc_is_alive p w)"

text \<open>
  \<^verbatim>\<open>target_object_method(obj, method, args, kwargs)\<close> puts the object and the name of
  the method into the keyword arguments of the dispatcher.
\<close>

definition dict_set :: "string \<Rightarrow> pyval \<Rightarrow> kwargs \<Rightarrow> kwargs" where
  "dict_set k v d = (if k \<in> fst ` set d then map (\<lambda>(a, b). if a = k then (a, v) else (a, b)) d
                     else d @ [(k, v)])"

definition target_object_method ::
  "pyval \<Rightarrow> string \<Rightarrow> pyval list \<Rightarrow> kwargs \<Rightarrow> handle \<Rightarrow> world \<Rightarrow> handle \<times> world" where
  "target_object_method obj method args kwargs h w =
     create_process (Some (method_wrapper h)) None args
       (dict_set ''method'' (VStr method) (dict_set ''obj'' obj kwargs)) None h w"

subsection \<open>Pickling\<close>





subsection \<open>Starting, joining, closing\<close>

definition sp_try_start :: "handle \<Rightarrow> world \<Rightarrow> (exn + unit) \<times> handle \<times> world" where
  "sp_try_start h w =
     (case sp_process h of
        None \<Rightarrow> (Inl AttributeError, h, w)
      | Some p \<Rightarrow>
          (case proc_start p w of
             (Inl e, w') \<Rightarrow> (Inl e, h, w')
           | (Inr p', w') \<Rightarrow> (Inr (), h\<lparr>sp_process := Some p'\<rparr>, w')))"

definition sp_start :: "handle \<Rightarrow> world \<Rightarrow> (exn + unit) \<times> handle \<times> world" where
  "sp_start h w =
     (case sp_try_start h w of
        (Inr u, h', w') \<Rightarrow> (Inr u, h', w')
      | (Inl e, h', w') \<Rightarrow>
          (let (h'', w'') = create_process None None [] [] None h' w'
           in sp_try_start h'' w''))"

definition sp_join :: "real option \<Rightarrow> handle \<Rightarrow> world \<Rightarrow> ((exn + unit) \<times> world) option" where
  "sp_join timeout h w =
     (case sp_process h of
        None \<Rightarrow> Some (Inl AttributeError, w)
      | Some p \<Rightarrow>
          (case proc_join p timeout w of
             None \<Rightarrow> None
           | Some (Inl e, w') \<Rightarrow> Some (Inl e, w')
           | Some (Inr u, w') \<Rightarrow>
               (case proc_exitcode p w' of
                  Inl e \<Rightarrow> Some (Inl e, w')
                | Inr None \<Rightarrow> Some (Inr (), emit (Warn TimeoutWarning) w')
                | Inr (Some c) \<Rightarrow> Some (Inr (), w'))))"


text \<open>
  \<^verbatim>\<open>join_async(timeout, interval)\<close>: the loop on the exit code, one sleep for each turn.
\<close>

partial_function (option) join_async_loop ::
  "real option \<Rightarrow> real \<Rightarrow> real \<Rightarrow> proc \<Rightarrow> world \<Rightarrow> ((exn + unit) \<times> world) option" where
  "join_async_loop timeout interval start_time p w =
     (case proc_exitcode p w of
        Inl e \<Rightarrow> Some (Inl e, w)
      | Inr (Some c) \<Rightarrow> Some (Inr (), w)
      | Inr None \<Rightarrow>
          (case timeout of
             None \<Rightarrow> join_async_loop timeout interval start_time p (sleep interval w)
           | Some t \<Rightarrow>
               (if fst (perf_counter (sleep interval w)) - start_time \<ge> t
                then Some (Inr (), emit (Warn TimeoutWarning) (snd (perf_counter (sleep interval w))))
                else join_async_loop timeout interval start_time p
                       (snd (perf_counter (sleep interval w))))))"

definition sp_join_async ::
  "real option \<Rightarrow> real \<Rightarrow> handle \<Rightarrow> world \<Rightarrow> ((exn + unit) \<times> world) option" where
  "sp_join_async timeout interval h w =
     (let (start_time, w1) = perf_counter w in
      case sp_process h of
        None \<Rightarrow> Some (Inl AttributeError, w1)
      | Some p \<Rightarrow> join_async_loop timeout interval start_time p w1)"

section \<open>ProcessingUnit\<close>

text \<open>
  The fields of a unit. The callables \<^verbatim>\<open>_execute_setup\<close> and \<^verbatim>\<open>_execute_closure\<close> and
  the task object are outside the repository: the unit knows whether each callable is a
  coroutine function, a reference to the task object (\<open>VNone\<close> when it has none) and what
  the task's \<^verbatim>\<open>is_async()\<close> answers. \<open>stored_is_processing\<close> is the field
  \<^verbatim>\<open>_is_processing\<close>, \<open>joined\<close> the field \<^verbatim>\<open>_joined\<close>.
\<close>

record processing_unit =
  name :: "string option"
  unit_setup_kwargs :: kwargs
  unit_closure_kwargs :: kwargs
  allow_setup :: bool
  allow_closure :: bool
  await_closure :: bool
  separate_process :: bool
  stored_is_processing :: bool
  process :: "handle option"
  setup_is_coro :: bool
  closure_is_coro :: bool
  task_ref :: pyval
  task_is_async :: bool
  joined :: bool

text \<open>
  A method of the unit takes the unit and the world and returns a value or an exception
  together with the unit and the world as they then are, or never returns.
\<close>

type_synonym 'a action =
  "processing_unit \<Rightarrow> world \<Rightarrow> ((exn + 'a) \<times> processing_unit \<times> world) option"

definition ret :: "'a \<Rightarrow> 'a action" where
  "ret a u w = Some (Inr a, u, w)"

definition throw :: "exn \<Rightarrow> 'a action" where
  "throw e u w = Some (Inl e, u, w)"

definition bind :: "'a action \<Rightarrow> ('a \<Rightarrow> 'b action) \<Rightarrow> 'b action" where
  "bind m f u w =
     (case m u w of
        None \<Rightarrow> None
      | Some (Inl e, u', w') \<Rightarrow> Some (Inl e, u', w')
      | Some (Inr a, u', w') \<Rightarrow> f a u' w')"

definition seq :: "unit action \<Rightarrow> 'b action \<Rightarrow> 'b action" where
  "seq m n = bind m (\<lambda>_. n)"

definition whenever :: "(processing_unit \<Rightarrow> bool) \<Rightarrow> unit action \<Rightarrow> unit action" where
  "whenever c m u w = (if c u then m u w else ret () u w)"

definition branch :: "(processing_unit \<Rightarrow> bool) \<Rightarrow> 'a action \<Rightarrow> 'a action \<Rightarrow> 'a action" where
  "branch c m n u w = (if c u then m u w else n u w)"

text \<open>
  A call of a callable that is not the unit's own code: it is recorded, and it raises when
  the world says that this callable fails.
\<close>

definition call :: "string \<Rightarrow> kwargs \<Rightarrow> unit action" where
  "call f kw u w =
     (let w' = emit (Call f kw (stored_is_processing u)) w
      in if f \<in> set (failing w) then Some (Inl CallError, u, w') else Some (Inr (), u, w'))"

definition warn :: "warning \<Rightarrow> unit action" where
  "warn x u w = Some (Inr (), u, emit (Warn x) w)"

definition set_joined :: "bool \<Rightarrow> unit action" where
  "set_joined b u w = Some (Inr (), u\<lparr>joined := b\<rparr>, emit (SetJoined b) w)"

text \<open>\<^verbatim>\<open>self.process.m(...)\<close>: an attribute error when the unit has no handle.\<close>

definition on_process ::
  "(handle \<Rightarrow> world \<Rightarrow> ((exn + 'a) \<times> handle \<times> world) option) \<Rightarrow> 'a action" where
  "on_process f u w =
     (case process u of
        None \<Rightarrow> Some (Inl AttributeError, u, w)
      | Some h \<Rightarrow>
          (case f h w of
             None \<Rightarrow> None
           | Some (r, h', w') \<Rightarrow> Some (r, u\<lparr>process := Some h'\<rparr>, w')))"

definition process_start :: "unit action" where
  "process_start = on_process (\<lambda>h w. Some (sp_start h w))"

definition process_join :: "real option \<Rightarrow> unit action" where
  "process_join timeout =
     on_process (\<lambda>h w. map_option (\<lambda>(r, w'). (r, h, w')) (sp_join timeout h w))"

definition process_join_async :: "real option \<Rightarrow> real \<Rightarrow> unit action" where
  "process_join_async timeout interval =
     on_process (\<lambda>h w. map_option (\<lambda>(r, w'). (r, h, w')) (sp_join_async timeout interval h w))"

subsection \<open>State\<close>

definition is_processing :: "bool action" where
  "is_processing u w =
     (case process u of
        None \<Rightarrow> Some (Inr (stored_is_processing u), u, w)
      | Some h \<Rightarrow>
          (if separate_process u
           then (case sp_is_alive h w of
                   Inl e \<Rightarrow> Some (Inl e, u, w)
                 | Inr b \<Rightarrow> Some (Inr b, u\<lparr>stored_is_processing := b\<rparr>, w))
           else Some (Inr (stored_is_processing u), u, w)))"

text \<open>
  The property \<^verbatim>\<open>task_object\<close>: while the unit is processing, its getter and its setter
  call \<^verbatim>\<open>warnings.warn()\<close> without a message, which is a type error.
\<close>

definition task_object :: "pyval action" where
  "task_object = bind is_processing (\<lambda>b. if b then throw TypeError else (\<lambda>u. ret (task_ref u) u))"

definition set_task_object :: "pyval \<Rightarrow> bool \<Rightarrow> unit action" where
  "set_task_object v a =
     bind is_processing (\<lambda>b. if b then throw TypeError
        else (\<lambda>u w. Some (Inr (), u\<lparr>task_ref := v, task_is_async := a\<rparr>, w)))"

text \<open>\<^verbatim>\<open>self.task_object.is_async()\<close>; the task object may be \<^verbatim>\<open>None\<close>.\<close>

definition task_object_is_async :: "bool action" where
  "task_object_is_async =
     bind task_object (\<lambda>t. if t = VNone then throw AttributeError else (\<lambda>u. ret (task_is_async u) u))"

text \<open>
  A call of a method of the task object, through the property (\<^verbatim>\<open>self.task_object.m\<close>)
  and through the field (\<^verbatim>\<open>self._task_object.m\<close>).
\<close>

definition task_call :: "string \<Rightarrow> kwargs \<Rightarrow> unit action" where
  "task_call m kw =
     bind task_object (\<lambda>t. if t = VNone then throw AttributeError else call m kw)"

definition raw_task_call :: "string \<Rightarrow> kwargs \<Rightarrow> unit action" where
  "raw_task_call m kw = (\<lambda>u. if task_ref u = VNone then throw AttributeError u else call m kw u)"

definition is_async :: "bool action" where
  "is_async =
     branch (\<lambda>u. setup_is_coro u \<or> closure_is_coro u) (ret True)
       (branch (\<lambda>u. \<not> separate_process u)
          (bind task_object_is_async (\<lambda>b. ret b))
          (ret False))"

subsection \<open>Construction\<close>

definition new_process :: "string option \<Rightarrow> bool \<Rightarrow> kwargs \<Rightarrow> unit action" where
  "new_process nm daemon kw u w =
     (let (h, w') = SeparateProcess None (if nm = None then name u else nm) [] kw (Some daemon) w
      in Some (Inr (), u\<lparr>process := Some h\<rparr>, w'))"

text \<open>
  \<^verbatim>\<open>ProcessingUnit(name, task, separate_process, daemon, p_kwargs, allow_setup,
  allow_closure)\<close>. The task is given with the answer of its \<^verbatim>\<open>is_async()\<close>; without a
  task the constructor calls \<^verbatim>\<open>DEFAULT_TASK\<close>, which is \<^verbatim>\<open>None\<close> in this class.
\<close>

definition ProcessingUnit ::
  "string option \<Rightarrow> (pyval \<times> bool) option \<Rightarrow> bool \<Rightarrow> bool \<Rightarrow> kwargs \<Rightarrow> bool \<Rightarrow> bool \<Rightarrow>
   world \<Rightarrow> ((exn + unit) \<times> processing_unit \<times> world) option" where
  "ProcessingUnit nm task sep daemon pkw a_setup a_closure =
     seq (whenever separate_process (new_process nm daemon pkw))
       (case task of
          None \<Rightarrow> bind task_object (\<lambda>t. if t = VNone then throw TypeError else ret ())
        | Some (t, a) \<Rightarrow> set_task_object t a)
       \<lparr>name = nm, unit_setup_kwargs = [], unit_closure_kwargs = [],
        allow_setup = a_setup, allow_closure = a_closure, await_closure = False,
        separate_process = sep, stored_is_processing = False, process = None,
        setup_is_coro = False, closure_is_coro = False, task_ref = VNone,
        task_is_async = False, joined = True\<rparr>"

subsection \<open>The four dispatch methods\<close>

definition dispatch_kwargs :: "kwargs \<Rightarrow> kwargs \<Rightarrow> kwargs \<Rightarrow> kwargs" where
  "dispatch_kwargs s_kwargs t_kwargs c_kwargs =
     [(''s_kwargs'', VDict s_kwargs), (''t_kwargs'', VDict t_kwargs), (''c_kwargs'', VDict c_kwargs)]"

definition execute_setup :: "unit action" where
  "execute_setup = (\<lambda>u. call ''setup'' (unit_setup_kwargs u) u)"

definition execute_closure :: "unit action" where
  "execute_closure = (\<lambda>u. call ''closure'' (unit_closure_kwargs u) u)"

text \<open>
  \<^verbatim>\<open>self.process.target_object_method(self.task_object, m, kwargs=kwargs)\<close> followed by
  \<^verbatim>\<open>self.process.start()\<close>.
\<close>

definition spawn_task :: "string \<Rightarrow> kwargs \<Rightarrow> unit action" where
  "spawn_task m kw =
     seq (\<lambda>u. if process u = None then throw AttributeError u
              else bind task_object
                     (\<lambda>obj. on_process (\<lambda>h w. Some (Inr (), target_object_method obj m [] kw h w))) u)
         process_start"

text \<open>
  \<^verbatim>\<open>run_normal\<close> gives \<^verbatim>\<open>self.name\<close> to \<^verbatim>\<open>warnings.warn\<close> as the category of its
  warning. A name that is a string is not a class of warnings, and the call raises a type
  error; without a name the category is the default one. The other three methods give no
  category.
\<close>

definition run_normal :: "kwargs \<Rightarrow> kwargs \<Rightarrow> kwargs \<Rightarrow> unit action" where
  "run_normal s_kwargs t_kwargs c_kwargs =
     seq (set_joined False)
    (seq (whenever allow_setup execute_setup)
    (seq (branch separate_process
            (spawn_task ''run'' (dispatch_kwargs s_kwargs t_kwargs c_kwargs))
            (task_call ''task.run'' (dispatch_kwargs s_kwargs t_kwargs c_kwargs)))
    (seq (whenever allow_closure
            (seq (whenever separate_process
                    (branch await_closure (process_join None)
                       (branch (\<lambda>u. name u = None) (warn RunThrough) (throw TypeError))))
                 execute_closure))
         (set_joined True))))"

definition start_normal :: "kwargs \<Rightarrow> kwargs \<Rightarrow> kwargs \<Rightarrow> unit action" where
  "start_normal s_kwargs t_kwargs c_kwargs =
     seq (set_joined False)
    (seq (whenever allow_setup execute_setup)
    (seq (branch separate_process
            (spawn_task ''start'' (dispatch_kwargs s_kwargs t_kwargs c_kwargs))
            (task_call ''task.start'' (dispatch_kwargs s_kwargs t_kwargs c_kwargs)))
    (seq (whenever allow_closure
            (seq (whenever separate_process
                    (branch await_closure (process_join None) (warn RunThrough)))
                 execute_closure))
         (set_joined True))))"

definition run_coro :: "kwargs \<Rightarrow> kwargs \<Rightarrow> kwargs \<Rightarrow> unit action" where
  "run_coro s_kwargs t_kwargs c_kwargs =
     seq (set_joined False)
    (seq (whenever allow_setup execute_setup)
    (seq (branch separate_process
            (spawn_task ''run'' (dispatch_kwargs s_kwargs t_kwargs c_kwargs))
            (seq (bind task_object_is_async
                    (\<lambda>a. if a then task_call ''task.run_coro'' (dispatch_kwargs s_kwargs t_kwargs c_kwargs)
                         else task_call ''task.run'' (dispatch_kwargs s_kwargs t_kwargs c_kwargs)))
                 (whenever allow_closure
                    (seq (whenever separate_process
                            (branch await_closure (process_join_async None 0) (warn RunThrough)))
                         execute_closure))))
         (set_joined True)))"

definition start_coro :: "kwargs \<Rightarrow> kwargs \<Rightarrow> kwargs \<Rightarrow> unit action" where
  "start_coro s_kwargs t_kwargs c_kwargs =
     seq (set_joined False)
    (seq (whenever allow_setup execute_setup)
    (seq (branch separate_process
            (spawn_task ''start'' (dispatch_kwargs s_kwargs t_kwargs c_kwargs))
            (bind task_object_is_async
               (\<lambda>a. if a then task_call ''task.start_coro'' (dispatch_kwargs s_kwargs t_kwargs c_kwargs)
                    else task_call ''task.start'' (dispatch_kwargs s_kwargs t_kwargs c_kwargs))))
    (seq (whenever allow_closure
            (seq (whenever separate_process
                    (branch await_closure (process_join_async None 0) (warn RunThrough)))
                 execute_closure))
         (set_joined True))))"


definition start :: "kwargs \<Rightarrow> kwargs \<Rightarrow> kwargs \<Rightarrow> unit action" where
  "start s_kwargs t_kwargs c_kwargs =
     bind is_async (\<lambda>a. if a then start_coro s_kwargs t_kwargs c_kwargs
                         else start_normal s_kwargs t_kwargs c_kwargs)"

subsection \<open>Joining and stopping\<close>

text \<open>
  The loop of \<^verbatim>\<open>join\<close> on the flag \<^verbatim>\<open>_joined\<close>. It answers whether the time ran out.
  Nothing in the loop changes the flag: with the flag down and no timeout it never ends.
\<close>

partial_function (option) join_poll ::
  "real option \<Rightarrow> real \<Rightarrow> processing_unit \<Rightarrow> world \<Rightarrow> (bool \<times> world) option" where
  "join_poll timeout start_time u w =
     (if joined u then Some (False, w)
      else (case timeout of
              None \<Rightarrow> join_poll timeout start_time u w
            | Some t \<Rightarrow>
                (if fst (perf_counter w) - start_time \<ge> t then Some (True, snd (perf_counter w))
                 else join_poll timeout start_time u (snd (perf_counter w)))))"

partial_function (option) join_async_poll ::
  "real option \<Rightarrow> real \<Rightarrow> real \<Rightarrow> processing_unit \<Rightarrow> world \<Rightarrow> (bool \<times> world) option" where
  "join_async_poll timeout interval start_time u w =
     (if joined u then Some (False, w)
      else (case timeout of
              None \<Rightarrow> join_async_poll timeout interval start_time u (sleep interval w)
            | Some t \<Rightarrow>
                (if fst (perf_counter (sleep interval w)) - start_time \<ge> t
                 then Some (True, snd (perf_counter (sleep interval w)))
                 else join_async_poll timeout interval start_time u
                        (snd (perf_counter (sleep interval w))))))"

text \<open>The time that is left of the timeout after the loop.\<close>

definition remaining :: "real option \<Rightarrow> real \<Rightarrow> world \<Rightarrow> real option \<times> world" where
  "remaining timeout start_time w =
     (case timeout of
        None \<Rightarrow> (None, w)
      | Some t \<Rightarrow> (Some (t - (fst (perf_counter w) - start_time)), snd (perf_counter w)))"

definition join :: "real option \<Rightarrow> unit action" where
  "join timeout u w =
     (let (start_time, w1) = perf_counter w in
      case join_poll timeout start_time u w1 of
        None \<Rightarrow> None
      | Some (True, w2) \<Rightarrow> Some (Inr (), u, w2)
      | Some (False, w2) \<Rightarrow>
          (let (timeout', w3) = remaining timeout start_time w2
           in if separate_process u then process_join timeout' u w3 else Some (Inr (), u, w3)))"

definition join_async :: "real option \<Rightarrow> real \<Rightarrow> unit action" where
  "join_async timeout interval u w =
     (let (start_time, w1) = perf_counter w in
      case join_async_poll timeout interval start_time u w1 of
        None \<Rightarrow> None
      | Some (True, w2) \<Rightarrow> Some (Inr (), u, w2)
      | Some (False, w2) \<Rightarrow>
          (let (timeout', w3) = remaining timeout start_time w2
           in if separate_process u then process_join_async timeout' interval u w3
              else Some (Inr (), u, w3)))"

text \<open>\<^verbatim>\<open>ProcessingUnit.stop(join, timeout)\<close>.\<close>

definition stop :: "bool \<Rightarrow> real option \<Rightarrow> unit action" where
  "stop j timeout =
     seq (raw_task_call ''task.stop'' [])
         (if j then join timeout else ret ())"

section \<open>ProcessingCluster\<close>

text \<open>
  A cluster is a unit whose task object is a collection of units; it overrides
  \<^verbatim>\<open>stop\<close> and \<^verbatim>\<open>stop_async\<close>.
\<close>

definition timeout_val :: "real option \<Rightarrow> pyval" where
  "timeout_val timeout = (case timeout of None \<Rightarrow> VNone | Some t \<Rightarrow> VNum t)"

definition cluster_stop :: "bool \<Rightarrow> real option \<Rightarrow> unit action" where
  "cluster_stop j timeout =
     seq (raw_task_call ''task.stop'' [(''join'', VBool j), (''timeout'', timeout_val timeout)])
         (if j then join timeout else ret ())"

section \<open>Observations and examples\<close>

text \<open>The events between two worlds, the later one reached from the earlier.\<close>

definition since :: "world \<Rightarrow> world \<Rightarrow> event list" where
  "since w w' = drop (length (trace w)) (trace w')"

definition observed ::
  "world \<Rightarrow> ((exn + unit) \<times> processing_unit \<times> world) option \<Rightarrow>
   ((exn + unit) \<times> bool \<times> event list) option" where
  "observed w x = map_option (\<lambda>(r, u, w'). (r, joined u, since w w')) x"

text \<open>
  A world in which every process that is started runs for five units of time, and a
  handle on a worker whose process has been started in it at time 0.
\<close>

definition ex_world :: world where
  "ex_world = \<lparr>now = 0, next_id = 1, cur_daemon = False, attempts = 0,
               spawn_plan = (\<lambda>n. Runs (Some 5)), kill_delay = 0, tick = 1, failing = [],
               trace = []\<rparr>"

definition ex_proc :: proc where
  "ex_proc = \<lparr>p_target = Some (Func ''work''), p_name = ''worker'', p_args = [VNum 1],
              p_kwargs = [], p_daemon = True, p_state = Started (Some 5) 0\<rparr>"

definition ex_handle :: handle where
  "ex_handle = \<lparr>method_wrapper = Run_method, sp_process = Some ex_proc\<rparr>"

definition ex_started_world :: world where
  "ex_started_world = ex_world\<lparr>next_id := 2, attempts := 1, trace := [ProcNew, ProcStart]\<rparr>"

text \<open>
  Units as the constructor leaves them, with a task object that is not asynchronous:
  one that works in the calling process and one with a process of its own.
\<close>

definition ex_unit :: "bool \<Rightarrow> bool \<Rightarrow> processing_unit" where
  "ex_unit a_setup a_closure =
     \<lparr>name = None, unit_setup_kwargs = [], unit_closure_kwargs = [],
      allow_setup = a_setup, allow_closure = a_closure, await_closure = False,
      separate_process = False, stored_is_processing = False, process = None,
      setup_is_coro = False, closure_is_coro = False, task_ref = VRef ''task'',
      task_is_async = False, joined = True\<rparr>"

definition ex_unit_sep :: "bool \<Rightarrow> bool \<Rightarrow> processing_unit" where
  "ex_unit_sep a_setup a_closure =
     (ex_unit a_setup a_closure)
       \<lparr>separate_process := True,
        process := Some \<lparr>method_wrapper = Run_method,
                         sp_process = Some \<lparr>p_target = None, p_name = ''Process-1'', p_args = [],
                                              p_kwargs = [], p_daemon = False,
                                              p_state = Initial\<rparr>\<rparr>\<rparr>"

definition ex_world_sep :: world where
  "ex_world_sep = ex_world\<lparr>next_id := 2, trace := [ProcNew]\<rparr>"

text \<open>The calls of setup and closure that a unit with its flag down is due.\<close>

definition setup_events :: "processing_unit \<Rightarrow> event list" where
  "setup_events u = (if allow_setup u then [Call ''setup'' (unit_setup_kwargs u) False] else [])"

definition closure_events :: "processing_unit \<Rightarrow> event list" where
  "closure_events u =
     (if allow_closure u then [Call ''closure'' (unit_closure_kwargs u) False] else [])"

text \<open>
  What \<^verbatim>\<open>join\<close> does with the clock once the flag \<^verbatim>\<open>_joined\<close> is up: the reading of
  the start time and, with a timeout, the reading for the time that is left.
\<close>

definition join_clock :: "real option \<Rightarrow> world \<Rightarrow> real option \<times> world" where
  "join_clock timeout w = remaining timeout (now w) (snd (perf_counter w))"

text \<open>The events of waiting: readings of the clock, joins of a process, warnings.\<close>

fun join_event :: "event \<Rightarrow> bool" where
  "join_event ClockRead = True"
| "join_event (ProcJoin t) = True"
| "join_event (Warn x) = True"
| "join_event _ = False"

text \<open>The events of the loop of \<^verbatim>\<open>join_async\<close>: sleeps and readings of the clock.\<close>

fun poll_event :: "event \<Rightarrow> bool" where
  "poll_event ClockRead = True"
| "poll_event (Sleep d) = True"
| "poll_event _ = False"

definition stop_call :: "kwargs \<Rightarrow> processing_unit \<Rightarrow> event" where
  "stop_call kw u = Call ''task.stop'' kw (stored_is_processing u)"

section \<open>Properties of the process handle\<close>

lemma cp_some:
  "sp_process h = Some prev \<Longrightarrow>
   create_process target nm args kwargs daemon h w =
     (h\<lparr>sp_process := Some \<lparr>p_target = (if target = None then p_target prev else target),
          p_name = (case nm of None \<Rightarrow> ''Process-'' @ str_nat (next_id w) | Some n \<Rightarrow> n),
          p_args = (if args = [] then p_args prev else args),
          p_kwargs = (if kwargs = [] then p_kwargs prev else kwargs),
          p_daemon = (case daemon of None \<Rightarrow> p_daemon prev | Some d \<Rightarrow> d),
          p_state = Initial\<rparr>\<rparr>, emit ProcNew (w\<lparr>next_id := Suc (next_id w)\<rparr>))"
  by (simp add: create_process_def Process_def read_target_def Let_def split: option.split)

lemma cp_none:
  "sp_process h = None \<Longrightarrow>
   create_process target nm args kwargs daemon h w =
     (h\<lparr>sp_process := Some \<lparr>p_target = target,
          p_name = (case nm of None \<Rightarrow> ''Process-'' @ str_nat (next_id w) | Some n \<Rightarrow> n),
          p_args = args,
          p_kwargs = kwargs,
          p_daemon = (case daemon of None \<Rightarrow> cur_daemon w | Some d \<Rightarrow> d),
          p_state = Initial\<rparr>\<rparr>, emit ProcNew (w\<lparr>next_id := Suc (next_id w)\<rparr>))"
  by (simp add: create_process_def Process_def Let_def split: option.split)

lemma str_nat_digit: "n < 10 \<Longrightarrow> str_nat n = [digit_char n]"
  by (simp add: str_nat.simps)

lemma ex_handle_built:
  "SeparateProcess (Some (Func ''work'')) (Some ''worker'') [VNum 1] [] (Some True) ex_world =
     (ex_handle\<lparr>sp_process := Some (ex_proc\<lparr>p_state := Initial\<rparr>)\<rparr>,
      ex_world\<lparr>next_id := 2, trace := [ProcNew]\<rparr>)"
  by (simp add: SeparateProcess_def cp_none ex_handle_def ex_proc_def ex_world_def emit_def)

lemma ex_handle_started:
  "sp_start (ex_handle\<lparr>sp_process := Some (ex_proc\<lparr>p_state := Initial\<rparr>)\<rparr>)
     (ex_world\<lparr>next_id := 2, trace := [ProcNew]\<rparr>) = (Inr (), ex_handle, ex_started_world)"
  by (simp add: sp_start_def sp_try_start_def proc_start_def ex_handle_def ex_proc_def
        ex_world_def ex_started_world_def emit_def Let_def)







text \<open>
  C6. \<^verbatim>\<open>join(timeout)\<close> on a handle whose process is running. With a timeout, it returns
  without an exception; if the process still runs when the timeout has passed, it returns
  at that moment, has warned of the timeout exactly once, and the process still runs;
  otherwise it returns when the process ends, without a warning. Without a timeout it
  returns when the process ends, without a warning, and never returns if the process
  never ends.
\<close>

theorem join_timeout_warning:
  assumes "sp_process h = Some p" and "proc_running p (now w)"
  shows "case timeout of
           Some t \<Rightarrow>
             (case sp_join (Some t) h w of
                Some (Inr u, w') \<Rightarrow>
                  (if proc_running p (now w + max t 0)
                   then now w' = now w + max t 0 \<and> proc_running p (now w') \<and>
                        since w w' = [ProcJoin (Some t), Warn TimeoutWarning]
                   else (\<exists>c. p_state p = Started (Some (now w')) c) \<and>
                        since w w' = [ProcJoin (Some t)])
              | _ \<Rightarrow> False)
         | None \<Rightarrow>
             (case sp_join None h w of
                Some (Inr u, w') \<Rightarrow>
                  (\<exists>c. p_state p = Started (Some (now w')) c) \<and> since w w' = [ProcJoin None]
              | Some (Inl e, w') \<Rightarrow> False
              | None \<Rightarrow> (\<exists>c. p_state p = Started None c))"
  using assms
  by (auto simp: sp_join_def proc_join_def proc_exitcode_def proc_running_def emit_def since_def
        Let_def min_def max_def split: pstate.splits option.splits)

text \<open>The worker runs until time 5; a join at time 0 with a timeout of 3 warns once.\<close>

theorem join_timeout_warning_witness:
  "sp_process ex_handle = Some ex_proc \<and> proc_running ex_proc (now ex_started_world) \<and>
   (case sp_join (Some 3) ex_handle ex_started_world of
      Some (Inr u, w') \<Rightarrow>
        now w' = 3 \<and> proc_running ex_proc (now w') \<and>
        since ex_started_world w' = [ProcJoin (Some 3), Warn TimeoutWarning]
    | _ \<Rightarrow> False)"
  using join_timeout_warning [of ex_handle ex_proc ex_started_world "Some 3"]
  by (simp add: ex_handle_def ex_proc_def ex_started_world_def ex_world_def proc_running_def
        sp_join_def proc_join_def proc_exitcode_def emit_def since_def Let_def)

text \<open>
  The cooperative \<^verbatim>\<open>join_async\<close> of the handle: whenever it returns, it has slept and
  read the clock and, at the very end, warned of the timeout at most once, and only when it
  was given a timeout; the warning is no exception.
\<close>

lemma join_async_loop_events:
  "join_async_loop timeout interval st p w = Some y \<Longrightarrow>
   \<exists>evs ws. trace (snd y) = trace w @ evs @ ws \<and> list_all poll_event evs \<and>
      (ws = [] \<or> ws = [Warn TimeoutWarning] \<and> timeout \<noteq> None \<and> fst y = Inr ())"
proof (rule join_async_loop.raw_induct
    [where P = "\<lambda>timeout interval st p w y.
         \<exists>evs ws. trace (snd y) = trace w @ evs @ ws \<and> list_all poll_event evs \<and>
           (ws = [] \<or> ws = [Warn TimeoutWarning] \<and> timeout \<noteq> None \<and> fst y = Inr ())"
       and timeout = timeout and interval = interval and start_time = st and p = p and w = w
       and y = y],
    goal_cases)
  case (1 loop timeout interval start_time p w y)
  note IH = 1(2) and body = 1(3)
  let ?w1 = "sleep interval w"
  let ?w2 = "snd (perf_counter ?w1)"
  have t1: "trace ?w1 = trace w @ [Sleep interval]"
    by (simp add: sleep_def emit_def)
  have t2: "trace ?w2 = trace w @ [Sleep interval, ClockRead]"
    by (simp add: sleep_def perf_counter_def emit_def)
  show ?case
  proof (cases "proc_exitcode p w")
    case (Inl e)
    with body have "y = (Inl e, w)" by simp
    then show ?thesis by simp
  next
    case (Inr code)
    show ?thesis
    proof (cases code)
      case (Some c)
      with Inr body have "y = (Inr (), w)" by simp
      then show ?thesis by simp
    next
      case None
      show ?thesis
      proof (cases timeout)
        case tn: None
        with None Inr body have "loop None interval start_time p ?w1 = Some y" by simp
        from IH [OF this] obtain evs ws where
          "trace (snd y) = trace ?w1 @ evs @ ws" "list_all poll_event evs" "ws = []"
          by auto
        with t1 have "trace (snd y) = trace w @ (Sleep interval # evs) @ [] \<and>
            list_all poll_event (Sleep interval # evs)" by simp
        then show ?thesis by blast
      next
        case (Some t)
        show ?thesis
        proof (cases "t \<le> fst (perf_counter ?w1) - start_time")
          case True
          with Some None Inr body have "y = (Inr (), emit (Warn TimeoutWarning) ?w2)" by simp
          with t2 Some have "trace (snd y) = trace w @ [Sleep interval, ClockRead] @ [Warn TimeoutWarning] \<and>
              list_all poll_event [Sleep interval, ClockRead] \<and> timeout \<noteq> None \<and> fst y = Inr ()"
            by (simp add: emit_def)
          then show ?thesis by blast
        next
          case False
          with Some None Inr body have "loop (Some t) interval start_time p ?w2 = Some y" by simp
          from IH [OF this] obtain evs ws where
            e: "trace (snd y) = trace ?w2 @ evs @ ws" "list_all poll_event evs"
            "ws = [] \<or> ws = [Warn TimeoutWarning] \<and> fst y = Inr ()"
            by auto
          with t2 Some have "trace (snd y) = trace w @ (Sleep interval # ClockRead # evs) @ ws \<and>
              list_all poll_event (Sleep interval # ClockRead # evs) \<and>
              (ws = [] \<or> ws = [Warn TimeoutWarning] \<and> timeout \<noteq> None \<and> fst y = Inr ())"
            by auto
          then show ?thesis by blast
        qed
      qed
    qed
  qed
next
  case 2
  then show ?case .
qed


lemma join_async_warns_at_most_once:
  assumes "sp_join_async timeout interval h w = Some (r, w')"
  shows "\<exists>evs ws. since w w' = evs @ ws \<and> list_all poll_event evs \<and>
           (ws = [] \<or> ws = [Warn TimeoutWarning] \<and> timeout \<noteq> None \<and> r = Inr ())"
proof (cases "sp_process h")
  case None
  with assms have "w' = snd (perf_counter w)"
    by (simp add: sp_join_async_def perf_counter_def)
  then have "since w w' = [ClockRead] @ [] \<and> list_all poll_event [ClockRead]"
    by (simp add: perf_counter_def emit_def since_def)
  then show ?thesis by blast
next
  case (Some p)
  with assms have "join_async_loop timeout interval (now w) p (snd (perf_counter w)) = Some (r, w')"
    by (simp add: sp_join_async_def perf_counter_def)
  from join_async_loop_events [OF this] obtain evs ws where
    "trace w' = trace (snd (perf_counter w)) @ evs @ ws" "list_all poll_event evs"
    "ws = [] \<or> ws = [Warn TimeoutWarning] \<and> timeout \<noteq> None \<and> r = Inr ()"
    by auto
  then have "since w w' = (ClockRead # evs) @ ws \<and> list_all poll_event (ClockRead # evs) \<and>
      (ws = [] \<or> ws = [Warn TimeoutWarning] \<and> timeout \<noteq> None \<and> r = Inr ())"
    by (simp add: perf_counter_def emit_def since_def)
  then show ?thesis by blast
qed




section \<open>Properties of the processing unit\<close>

lemmas act_defs = bind_def seq_def whenever_def branch_def ret_def throw_def call_def warn_def
  set_joined_def on_process_def process_start_def process_join_def execute_setup_def
  execute_closure_def task_call_def raw_task_call_def task_object_def task_object_is_async_def
  is_processing_def spawn_task_def target_object_method_def set_task_object_def new_process_def
  is_async_def dispatch_kwargs_def

lemmas proc_defs = sp_start_def sp_try_start_def proc_start_def sp_is_alive_def proc_is_alive_def
  sp_join_def proc_join_def proc_exitcode_def proc_running_def dict_set_def

lemmas ex_defs = ex_unit_def ex_unit_sep_def ex_world_def ex_world_sep_def

text \<open>The example units are what the constructor builds in the example world.\<close>

lemma ex_unit_built:
  "ProcessingUnit None (Some (VRef ''task'', False)) False False [] s c ex_world
     = Some (Inr (), ex_unit s c, ex_world)"
  by (simp add: ProcessingUnit_def act_defs ex_defs)

lemma ex_unit_sep_built:
  "ProcessingUnit None (Some (VRef ''task'', False)) True False [] s c ex_world
     = Some (Inr (), ex_unit_sep s c, ex_world_sep)"
  by (simp add: ProcessingUnit_def act_defs proc_defs SeparateProcess_def cp_none ex_defs emit_def
        str_nat_digit)

text \<open>
  Where the dispatch methods agree. When nothing raises, a unit that works in the calling
  process calls setup (if allowed), the task and closure (if allowed), in this order, in all
  four methods. A unit with a process of its own that does not wait for the process calls
  setup, starts the process, warns and calls closure, in \<^verbatim>\<open>run_normal\<close>,
  \<^verbatim>\<open>start_normal\<close> and \<^verbatim>\<open>start_coro\<close>; \<^verbatim>\<open>run_coro\<close> stops after the start.
\<close>

lemma phases_in_process:
  assumes "\<not> separate_process u" and "task_ref u \<noteq> VNone" and "\<not> stored_is_processing u"
    and "failing w = []"
  shows "observed w (run_normal s t c u w) =
           Some (Inr (), True, SetJoined False # setup_events u @
                   Call ''task.run'' (dispatch_kwargs s t c) False # closure_events u @ [SetJoined True])"
    and "observed w (start_normal s t c u w) =
           Some (Inr (), True, SetJoined False # setup_events u @
                   Call ''task.start'' (dispatch_kwargs s t c) False # closure_events u @ [SetJoined True])"
    and "observed w (run_coro s t c u w) =
           Some (Inr (), True, SetJoined False # setup_events u @
                   Call (if task_is_async u then ''task.run_coro'' else ''task.run'')
                     (dispatch_kwargs s t c) False # closure_events u @ [SetJoined True])"
    and "observed w (start_coro s t c u w) =
           Some (Inr (), True, SetJoined False # setup_events u @
                   Call (if task_is_async u then ''task.start_coro'' else ''task.start'')
                     (dispatch_kwargs s t c) False # closure_events u @ [SetJoined True])"
  using assms
  by (simp_all add: run_normal_def start_normal_def run_coro_def start_coro_def observed_def
        since_def bind_def seq_def whenever_def branch_def ret_def throw_def call_def
        set_joined_def execute_setup_def execute_closure_def task_call_def task_object_def
        task_object_is_async_def is_processing_def emit_def setup_events_def closure_events_def
        Let_def split: option.split)

lemma phases_separate:
  assumes "separate_process u" and "process u = Some h" and "sp_process h = Some p"
    and "p_state p = Initial" and "spawn_plan w (attempts w) = Runs d"
    and "failing w = []" and "\<not> await_closure u" and "name u = None"
    and "\<not> stored_is_processing u"
  shows "observed w (run_normal s t c u w) =
           Some (Inr (), True, SetJoined False # setup_events u @ [ProcNew, ProcStart] @
                   (if allow_closure u then [Warn RunThrough] else []) @ closure_events u @ [SetJoined True])"
    and "observed w (start_normal s t c u w) =
           Some (Inr (), True, SetJoined False # setup_events u @ [ProcNew, ProcStart] @
                   (if allow_closure u then [Warn RunThrough] else []) @ closure_events u @ [SetJoined True])"
    and "observed w (start_coro s t c u w) =
           Some (Inr (), True, SetJoined False # setup_events u @ [ProcNew, ProcStart] @
                   (if allow_closure u then [Warn RunThrough] else []) @ closure_events u @ [SetJoined True])"
    and "observed w (run_coro s t c u w) =
           Some (Inr (), True, SetJoined False # setup_events u @ [ProcNew, ProcStart, SetJoined True])"
  using assms
  by (simp_all add: run_normal_def start_normal_def run_coro_def start_coro_def observed_def
        since_def act_defs proc_defs cp_some emit_def setup_events_def closure_events_def
        Let_def)


text \<open>
  C1, at the input where the code departs from it. A unit with a process of its own and
  \<^verbatim>\<open>allow_closure\<close> set: \<^verbatim>\<open>run_coro\<close> starts the process and returns without calling
  the closure, because the closure is run in the branch of the task that works in the
  calling process; \<^verbatim>\<open>start_coro\<close> on the same unit calls the closure after the start.
\<close>

theorem run_coro_separate_skips_closure:
  "observed ex_world_sep (run_coro [] [] [] (ex_unit_sep False True) ex_world_sep)
     = Some (Inr (), True, [SetJoined False, ProcNew, ProcStart, SetJoined True]) \<and>
   observed ex_world_sep (start_coro [] [] [] (ex_unit_sep False True) ex_world_sep)
     = Some (Inr (), True, [SetJoined False, ProcNew, ProcStart, Warn RunThrough,
                            Call ''closure'' [] False, SetJoined True])"
  by (simp add: run_coro_def start_coro_def observed_def since_def act_defs proc_defs cp_some
        ex_defs emit_def Let_def)

text \<open>
  C2, at the same departure. With setup and closure both allowed, \<^verbatim>\<open>run_coro\<close> on a unit
  with a process of its own sets \<^verbatim>\<open>_joined\<close> again although the closure has not run.
\<close>

theorem run_coro_joined_without_closure:
  "observed ex_world_sep (run_coro [] [] [] (ex_unit_sep True True) ex_world_sep)
     = Some (Inr (), True,
             [SetJoined False, Call ''setup'' [] False, ProcNew, ProcStart, SetJoined True])"
  by (simp add: run_coro_def observed_def since_def act_defs proc_defs cp_some
        ex_defs emit_def Let_def)

subsection \<open>The processing flag\<close>








subsection \<open>Joining a unit whose flag is up\<close>

lemma join_poll_joined: "joined u \<Longrightarrow> join_poll timeout st u w = Some (False, w)"
  by (subst join_poll.simps) simp

lemma join_async_poll_joined: "joined u \<Longrightarrow> join_async_poll timeout i st u w = Some (False, w)"
  by (subst join_async_poll.simps) simp

lemma fresh_unit:
  assumes "ProcessingUnit nm task sep daemon pkw a_s a_c w0 = Some (Inr (), u, w)"
  shows "joined u \<and> separate_process u = sep \<and>
         (if sep then (\<exists>h p. process u = Some h \<and> sp_process h = Some p \<and> p_state p = Initial)
          else process u = None)"
  using assms
  by (auto simp: ProcessingUnit_def act_defs SeparateProcess_def cp_none sp_is_alive_def
        proc_is_alive_def proc_running_def
        split: option.splits if_splits prod.splits sum.splits)

lemma join_clock_events:
  "since w (snd (join_clock timeout w)) = ClockRead # (if timeout = None then [] else [ClockRead])"
  by (simp add: join_clock_def remaining_def perf_counter_def emit_def since_def split: option.split)

lemma join_joined:
  "joined u \<Longrightarrow> join timeout u w =
     (if separate_process u then process_join (fst (join_clock timeout w)) u (snd (join_clock timeout w))
      else Some (Inr (), u, snd (join_clock timeout w)))"
  by (simp add: join_def join_poll_joined join_clock_def perf_counter_def split: prod.splits)

lemma join_async_joined:
  "joined u \<Longrightarrow> join_async timeout i u w =
     (if separate_process u
      then process_join_async (fst (join_clock timeout w)) i u (snd (join_clock timeout w))
      else Some (Inr (), u, snd (join_clock timeout w)))"
  by (simp add: join_async_def join_async_poll_joined join_clock_def perf_counter_def split: prod.splits)

text \<open>
  C10, as the code has it. A unit as the constructor leaves it has \<^verbatim>\<open>_joined\<close> true, so
  \<^verbatim>\<open>join\<close> and \<^verbatim>\<open>join_async\<close> skip the loop on the flag and only read the clock (once,
  or twice with a timeout). A unit that works in the calling process then returns, with no
  event on any process. A unit with a process of its own goes on to its handle: \<^verbatim>\<open>join\<close>
  joins the process, which was never started, and that is an assertion error;
  \<^verbatim>\<open>join_async\<close> is the handle's \<^verbatim>\<open>join_async\<close>.
\<close>

theorem join_fresh_unit:
  assumes "ProcessingUnit nm task sep daemon pkw a_s a_c w0 = Some (Inr (), u, w)"
  shows "joined u \<and>
     since w (snd (join_clock timeout w)) = ClockRead # (if timeout = None then [] else [ClockRead]) \<and>
     (if sep
      then join timeout u w =
             Some (Inl AssertionError, u,
                   emit (ProcJoin (fst (join_clock timeout w))) (snd (join_clock timeout w))) \<and>
           join_async timeout interval u w =
             process_join_async (fst (join_clock timeout w)) interval u (snd (join_clock timeout w))
      else join timeout u w = Some (Inr (), u, snd (join_clock timeout w)) \<and>
           join_async timeout interval u w = Some (Inr (), u, snd (join_clock timeout w)))"
proof -
  from fresh_unit [OF assms] have j: "joined u" and s: "separate_process u = sep"
    and p: "if sep then (\<exists>h p. process u = Some h \<and> sp_process h = Some p \<and> p_state p = Initial)
          else process u = None"
    by (auto split: if_splits)
  show ?thesis
  proof (cases sep)
    case True
    with p obtain h q where "process u = Some h" "sp_process h = Some q" "p_state q = Initial"
      by auto
    then have "process_join t' u w' = Some (Inl AssertionError, u, emit (ProcJoin t') w')" for t' w'
      by (simp add: process_join_def on_process_def sp_join_def proc_join_def Let_def)
    with True j s show ?thesis
      by (simp add: join_joined join_async_joined join_clock_events)
  next
    case False
    with j s show ?thesis
      by (simp add: join_joined join_async_joined join_clock_events)
  qed
qed

text \<open>
  A unit that works in the calling process: \<^verbatim>\<open>join\<close> with a timeout of 3 reads the clock
  twice and returns.
\<close>

theorem join_fresh_unit_witness:
  "ProcessingUnit None (Some (VRef ''task'', False)) False False [] False False ex_world
     = Some (Inr (), ex_unit False False, ex_world) \<and>
   joined (ex_unit False False) \<and>
   since ex_world (snd (join_clock (Some 3) ex_world)) = [ClockRead, ClockRead] \<and>
   join (Some 3) (ex_unit False False) ex_world
     = Some (Inr (), ex_unit False False, snd (join_clock (Some 3) ex_world))"
  using join_fresh_unit [of None "Some (VRef ''task'', False)" False False "[]" False False
          ex_world "ex_unit False False" ex_world "Some 3" 0]
        ex_unit_built [of False False]
  by simp

text \<open>
  A unit with a process of its own, joined before any dispatch: \<^verbatim>\<open>join\<close> does not return
  but raises.
\<close>

theorem join_before_start_counterexample:
  "ProcessingUnit None (Some (VRef ''task'', False)) True False [] False False ex_world
     = Some (Inr (), ex_unit_sep False False, ex_world_sep) \<and>
   observed ex_world_sep (join None (ex_unit_sep False False) ex_world_sep)
     = Some (Inl AssertionError, True, [ClockRead, ProcJoin None])"
proof (intro conjI)
  show "ProcessingUnit None (Some (VRef ''task'', False)) True False [] False False ex_world
     = Some (Inr (), ex_unit_sep False False, ex_world_sep)"
    by (rule ex_unit_sep_built)
  show "observed ex_world_sep (join None (ex_unit_sep False False) ex_world_sep)
     = Some (Inl AssertionError, True, [ClockRead, ProcJoin None])"
    by (simp add: join_joined join_clock_def remaining_def perf_counter_def
      process_join_def on_process_def sp_join_def proc_join_def observed_def since_def emit_def
      ex_defs Let_def)
qed


subsection \<open>Stopping\<close>

lemma join_poll_events:
  "join_poll timeout st u w = Some y \<Longrightarrow>
   \<exists>evs. trace (snd y) = trace w @ evs \<and> list_all join_event evs"
proof (rule join_poll.raw_induct
    [where P = "\<lambda>timeout st u w y. \<exists>evs. trace (snd y) = trace w @ evs \<and> list_all join_event evs"
       and timeout = timeout and start_time = st and u = u and w = w and y = y],
    goal_cases)
  case (1 jp timeout start_time u w y)
  note IH = 1(2) and body = 1(3)
  show ?case
  proof (cases "joined u")
    case True
    with body show ?thesis by auto
  next
    case False
    show ?thesis
    proof (cases timeout)
      case None
      with False body have "jp None start_time u w = Some y" by simp
      from IH [OF this] show ?thesis .
    next
      case (Some t)
      show ?thesis
      proof (cases "t \<le> fst (perf_counter w) - start_time")
        case True
        with False Some body have "y = (True, snd (perf_counter w))" by simp
        then show ?thesis by (simp add: perf_counter_def emit_def)
      next
        case nt: False
        with False Some body
        have "jp (Some t) start_time u (snd (perf_counter w)) = Some y" by simp
        from IH [OF this] obtain evs where
          "trace (snd y) = trace (snd (perf_counter w)) @ evs" "list_all join_event evs" by blast
        then have "trace (snd y) = trace w @ (ClockRead # evs) \<and> list_all join_event (ClockRead # evs)"
          by (simp add: perf_counter_def emit_def)
        then show ?thesis by blast
      qed
    qed
  qed
next
  case 2
  then show ?case .
qed

lemma sp_join_events:
  "sp_join timeout h w = Some (r, w') \<Longrightarrow>
   \<exists>evs. trace w' = trace w @ evs \<and> list_all join_event evs"
  by (auto simp: sp_join_def proc_join_def emit_def Let_def
      split: option.splits pstate.splits sum.splits prod.splits)

lemma process_join_events:
  "process_join timeout u w = Some (r, u', w') \<Longrightarrow>
   \<exists>evs. trace w' = trace w @ evs \<and> list_all join_event evs"
  by (auto simp: process_join_def on_process_def split: option.splits prod.splits
      dest: sp_join_events)

lemma remaining_events:
  "\<exists>evs. trace (snd (remaining timeout st w)) = trace w @ evs \<and> list_all join_event evs"
  by (simp add: remaining_def perf_counter_def emit_def split: option.split)

lemma join_events:
  assumes "join timeout u w = Some (r, u', w')"
  shows "\<exists>evs. trace w' = trace w @ evs \<and> list_all join_event evs"
proof -
  let ?w1 = "snd (perf_counter w)"
  have t1: "trace ?w1 = trace w @ [ClockRead]"
    by (simp add: perf_counter_def emit_def)
  from assms obtain b w2 where poll: "join_poll timeout (now w) u ?w1 = Some (b, w2)"
    by (auto simp: join_def perf_counter_def split: option.splits prod.splits)
  from join_poll_events [OF poll] obtain e2 where
    t2: "trace w2 = trace ?w1 @ e2" "list_all join_event e2" by auto
  show ?thesis
  proof (cases b)
    case True
    with assms poll have "w' = w2"
      by (simp add: join_def perf_counter_def split: prod.splits)
    with t1 t2 show ?thesis by simp
  next
    case False
    let ?w3 = "snd (remaining timeout (now w) w2)"
    from remaining_events [of timeout "now w" w2] obtain e3 where
      t3: "trace ?w3 = trace w2 @ e3" "list_all join_event e3" by auto
    show ?thesis
    proof (cases "separate_process u")
      case sep: True
      with False assms poll
      have "process_join (fst (remaining timeout (now w) w2)) u ?w3 = Some (r, u', w')"
        by (simp add: join_def perf_counter_def split: prod.splits)
      from process_join_events [OF this] obtain e4 where
        "trace w' = trace ?w3 @ e4" "list_all join_event e4" by auto
      with t1 t2 t3 show ?thesis by simp
    next
      case nsep: False
      with False assms poll have "w' = ?w3"
        by (simp add: join_def perf_counter_def split: prod.splits)
      with t1 t2 t3 show ?thesis by simp
    qed
  qed
qed

lemma stop_eq:
  assumes "task_ref u \<noteq> VNone"
  shows "seq (raw_task_call ''task.stop'' kw) (if j then join timeout else ret ()) u w =
           (if ''task.stop'' \<in> set (failing w) then Some (Inl CallError, u, emit (stop_call kw u) w)
            else if j then join timeout u (emit (stop_call kw u) w)
            else Some (Inr (), u, emit (stop_call kw u) w))"
  using assms by (simp add: act_defs stop_call_def Let_def)

lemma stop_trace:
  assumes "task_ref u \<noteq> VNone"
    and "seq (raw_task_call ''task.stop'' kw) (if j then join timeout else ret ()) u w = Some (r, u', w')"
  shows "\<exists>evs. since w w' = stop_call kw u # evs \<and> list_all join_event evs \<and> (\<not> j \<longrightarrow> evs = [])"
proof (cases "''task.stop'' \<in> set (failing w) \<or> \<not> j")
  case True
  with assms have "w' = emit (stop_call kw u) w"
    by (auto simp: stop_eq split: if_splits)
  then show ?thesis by (simp add: since_def emit_def)
next
  case False
  with assms have "join timeout u (emit (stop_call kw u) w) = Some (r, u', w')"
    by (simp add: stop_eq)
  from join_events [OF this] show ?thesis using False
    by (auto simp: since_def emit_def)
qed

text \<open>
  C4. When the unit has a task object, \<^verbatim>\<open>stop(join, timeout)\<close> of a cluster first calls
  the \<^verbatim>\<open>stop\<close> of the task object with the same \<^verbatim>\<open>join\<close> and \<^verbatim>\<open>timeout\<close>, and the
  \<^verbatim>\<open>stop\<close> of a plain unit calls it without arguments. If that call raises, nothing
  follows. Otherwise, when \<^verbatim>\<open>join\<close> is true, the unit's own \<^verbatim>\<open>join(timeout)\<close> runs in
  the world the call has left, and when it is false nothing more happens. So the call is
  the first event and all events of waiting come after it.
\<close>

theorem stop_delegation:
  assumes "task_ref u \<noteq> VNone"
  shows "cluster_stop j timeout u w =
           (if ''task.stop'' \<in> set (failing w)
            then Some (Inl CallError, u,
                   emit (Call ''task.stop'' [(''join'', VBool j), (''timeout'', timeout_val timeout)]
                           (stored_is_processing u)) w)
            else if j
            then join timeout u
                   (emit (Call ''task.stop'' [(''join'', VBool j), (''timeout'', timeout_val timeout)]
                           (stored_is_processing u)) w)
            else Some (Inr (), u,
                   emit (Call ''task.stop'' [(''join'', VBool j), (''timeout'', timeout_val timeout)]
                           (stored_is_processing u)) w)) \<and>
         stop j timeout u w =
           (if ''task.stop'' \<in> set (failing w)
            then Some (Inl CallError, u, emit (Call ''task.stop'' [] (stored_is_processing u)) w)
            else if j then join timeout u (emit (Call ''task.stop'' [] (stored_is_processing u)) w)
            else Some (Inr (), u, emit (Call ''task.stop'' [] (stored_is_processing u)) w)) \<and>
         (\<forall>r u' w'. cluster_stop j timeout u w = Some (r, u', w') \<longrightarrow>
            (\<exists>evs. since w w' =
                     Call ''task.stop'' [(''join'', VBool j), (''timeout'', timeout_val timeout)]
                       (stored_is_processing u) # evs \<and>
                   list_all join_event evs \<and> (\<not> j \<longrightarrow> evs = []))) \<and>
         (\<forall>r u' w'. stop j timeout u w = Some (r, u', w') \<longrightarrow>
            (\<exists>evs. since w w' = Call ''task.stop'' [] (stored_is_processing u) # evs \<and>
                   list_all join_event evs \<and> (\<not> j \<longrightarrow> evs = [])))"
  using stop_eq [OF assms] stop_trace [OF assms]
  unfolding cluster_stop_def stop_def stop_call_def
  by blast

text \<open>
  Stopping the unit that works in the calling process, with a join and a timeout of 3:
  the call of the task's \<^verbatim>\<open>stop\<close>, then the two readings of the clock of \<^verbatim>\<open>join\<close>.
\<close>

theorem stop_delegation_witness:
  "task_ref (ex_unit False False) \<noteq> VNone \<and>
   observed ex_world (cluster_stop True (Some 3) (ex_unit False False) ex_world)
     = Some (Inr (), True,
             [Call ''task.stop'' [(''join'', VBool True), (''timeout'', VNum 3)] False,
              ClockRead, ClockRead]) \<and>
   observed ex_world (stop True (Some 3) (ex_unit False False) ex_world)
     = Some (Inr (), True, [Call ''task.stop'' [] False, ClockRead, ClockRead])"
  using stop_delegation [of "ex_unit False False" True "Some 3" ex_world]
  by (simp add: join_joined join_clock_def remaining_def perf_counter_def timeout_val_def
        observed_def since_def emit_def ex_defs)

end
